theory Spec2Isabelle
  imports Main
begin

section \<open>The authentication test server, embedded\<close>

text \<open>
  The program is a Go HTTP handler (\<^verbatim>\<open>serverHandler.ServeHTTP\<close>), its helper
  \<^verbatim>\<open>getAuthPayload\<close>, the start-up routine \<^verbatim>\<open>startServer\<close> and the control loop
  \<^verbatim>\<open>loop\<close>. Go strings are byte sequences, so they are \<^typ>\<open>string\<close> here (a
  \<^typ>\<open>char\<close> is one byte). Whatever the handler does to the outside (the response
  writer and the two channels) is recorded, in program order, as a list of events.
\<close>

subsection \<open>Library functions of Go used by the program\<close>

text \<open>
  \<^verbatim>\<open>strings.Index(s, sep)\<close>: the position of the first occurrence of \<open>sep\<close> in
  \<open>s\<close>; Go's \<open>-1\<close> is \<open>None\<close>.
\<close>

fun Index :: "string \<Rightarrow> string \<Rightarrow> nat option" where
  "Index [] sep = (if sep = [] then Some 0 else None)"
| "Index (c # cs) sep =
     (if take (length sep) (c # cs) = sep then Some 0
      else map_option Suc (Index cs sep))"

text \<open>
  \<^verbatim>\<open>strings.Split(s, sep)\<close> for a non-empty separator: cut \<open>s\<close> at every
  occurrence of \<open>sep\<close>, left to right; the pieces between the cuts are returned, the
  empty ones too. (With an empty separator Go cuts after every UTF-8 sequence; the
  program never does that, and the model cuts after every byte.)
\<close>

function Split :: "string \<Rightarrow> string \<Rightarrow> string list" where
  "Split s sep =
     (if sep = [] then map (\<lambda>c. [c]) s
      else case Index s sep of
             None \<Rightarrow> [s]
           | Some m \<Rightarrow> take m s # Split (drop (m + length sep) s) sep)"
  by pat_completeness auto
termination
proof (relation "measure (\<lambda>(s, sep). length s)")
  show "wf (measure (\<lambda>(s, sep). length s))" by simp
next
  fix s sep :: string and m :: nat
  assume sep: "sep \<noteq> []" and found: "Index s sep = Some m"
  have bound: "k + length sep \<le> length t" if "Index t sep = Some k" for t k
    using that
  proof (induction t arbitrary: k)
    case Nil
    then show ?case by (simp split: if_splits)
  next
    case (Cons c cs)
    show ?case
    proof (cases "take (length sep) (c # cs) = sep")
      case True
      then have "length (take (length sep) (c # cs)) = length sep"
        by simp
      then have "length sep \<le> length (c # cs)"
        by (simp only: length_take)
      with True Cons.prems show ?thesis by simp
    next
      case False
      with Cons.prems obtain j where "Index cs sep = Some j" "k = Suc j"
        by auto
      with Cons.IH show ?thesis by fastforce
    qed
  qed
  from sep have "0 < length sep" by simp
  with bound [OF found] have "length s - (m + length sep) < length s"
    by linarith
  then show "((drop (m + length sep) s, sep), (s, sep)) \<in> measure (\<lambda>(s, sep). length s)"
    by simp
qed

declare Split.simps [simp del]

text \<open>
  \<^verbatim>\<open>filepath.Base(path)\<close> on Unix: the last element of the path; trailing slashes
  are removed first; the empty path gives \<open>.\<close>, a path of slashes only gives \<open>/\<close>.
\<close>

definition Base :: "string \<Rightarrow> string" where
  "Base path =
     (if path = [] then ''.''
      else let stripped = rev (dropWhile (\<lambda>c. c = CHR ''/'') (rev path));
               element = rev (takeWhile (\<lambda>c. c \<noteq> CHR ''/'') (rev stripped))
           in if element = [] then ''/'' else element)"

text \<open>
  \<^verbatim>\<open>base64.StdEncoding.DecodeString\<close>: the alphabet of RFC 4648 with \<open>=\<close>
  padding. Carriage returns and line feeds are skipped wherever they stand; what is
  left is read four characters at a time; only the last group may end in one or two
  padding characters; a group of fewer than four characters is an error. \<open>None\<close> is
  Go's \<^verbatim>\<open>CorruptInputError\<close>.
\<close>

definition encodeStd :: string where
  "encodeStd = ''ABCDEFGHIJKLMNOPQRSTUVWXYZabcdefghijklmnopqrstuvwxyz0123456789+/''"

fun position :: "char \<Rightarrow> string \<Rightarrow> nat option" where
  "position c [] = None"
| "position c (x # xs) = (if c = x then Some 0 else map_option Suc (position c xs))"

definition decodeMap :: "char \<Rightarrow> nat option" where
  "decodeMap c = position c encodeStd"

definition assemble :: "nat \<Rightarrow> nat \<Rightarrow> nat \<Rightarrow> nat \<Rightarrow> nat" where
  "assemble a b c d = a * 2 ^ 18 + b * 2 ^ 12 + c * 2 ^ 6 + d"

definition byte :: "nat \<Rightarrow> char" where
  "byte n = char_of (n mod 256)"

fun decodeQuanta :: "string \<Rightarrow> string option" where
  "decodeQuanta [] = Some []"
| "decodeQuanta [a, b, c, d] =
     (case (decodeMap a, decodeMap b) of
        (Some x, Some y) \<Rightarrow>
          (if c = CHR ''=''
           then (if d = CHR ''=''
                 then Some [byte (assemble x y 0 0 div 2 ^ 16)]
                 else None)
           else (case decodeMap c of
                   None \<Rightarrow> None
                 | Some z \<Rightarrow>
                     (if d = CHR ''=''
                      then Some [byte (assemble x y z 0 div 2 ^ 16),
                                 byte (assemble x y z 0 div 2 ^ 8)]
                      else (case decodeMap d of
                              None \<Rightarrow> None
                            | Some w \<Rightarrow>
                                Some [byte (assemble x y z w div 2 ^ 16),
                                      byte (assemble x y z w div 2 ^ 8),
                                      byte (assemble x y z w)]))))
      | _ \<Rightarrow> None)"
| "decodeQuanta (a # b # c # d # rest) =
     (case (decodeMap a, decodeMap b, decodeMap c, decodeMap d) of
        (Some x, Some y, Some z, Some w) \<Rightarrow>
          map_option
            (\<lambda>out. byte (assemble x y z w div 2 ^ 16) #
                    byte (assemble x y z w div 2 ^ 8) #
                    byte (assemble x y z w) # out)
            (decodeQuanta rest)
      | _ \<Rightarrow> None)"
| "decodeQuanta _ = None"

definition DecodeString :: "string \<Rightarrow> string option" where
  "DecodeString s =
     decodeQuanta (filter (\<lambda>c. c \<noteq> CHR 0x0D \<and> c \<noteq> CHR 0x0A) s)"

subsection \<open>Requests, errors and what the handler does\<close>

text \<open>
  \<^verbatim>\<open>http.Header\<close> is a map from a header's name to its values.
  \<^verbatim>\<open>Header.Get\<close> returns the first value of the name, and the empty string when
  there is none. (\<open>Authorization\<close> is already in the canonical spelling that
  \<^verbatim>\<open>Get\<close> looks up.)
\<close>

type_synonym Header = "string \<rightharpoonup> string list"

definition Get :: "Header \<Rightarrow> string \<Rightarrow> string" where
  "Get h key = (case h key of None \<Rightarrow> [] | Some [] \<Rightarrow> [] | Some (v # _) \<Rightarrow> v)"

text \<open>
  Of \<^verbatim>\<open>http.Request\<close> the handler reads the method, the headers, the path of the
  URL and the URL as a string.
\<close>

record Request =
  Method :: string
  Headers :: Header
  URL_Path :: string
  URL_String :: string

record httpError =
  code :: nat
  message :: string

record serverHandler =
  auth :: string

abbreviation StatusOK :: nat where "StatusOK \<equiv> 200"
abbreviation StatusBadRequest :: nat where "StatusBadRequest \<equiv> 400"
abbreviation StatusUnauthorized :: nat where "StatusUnauthorized \<equiv> 401"
abbreviation StatusNotFound :: nat where "StatusNotFound \<equiv> 404"
abbreviation StatusMethodNotAllowed :: nat where "StatusMethodNotAllowed \<equiv> 405"
abbreviation StatusInternalServerError :: nat where "StatusInternalServerError \<equiv> 500"

text \<open>
  The handler's effects: \<^verbatim>\<open>w.WriteHeader(code)\<close>, \<^verbatim>\<open>w.Write(data)\<close>, a send on
  the channel \<^verbatim>\<open>h.stop\<close> and a send of a diagnostic on the channel \<^verbatim>\<open>h.msg\<close>.
\<close>

datatype event =
  WriteHeader nat
| Write string
| SendStop
| SendMsg string

text \<open>
  What the program takes from its surroundings. \<open>Quote\<close> is \<^verbatim>\<open>strconv.Quote\<close>,
  the rendering of the verb \<^verbatim>\<open>%q\<close>. The next four fields are the outcomes of the
  steps of the build, each a Go pair of a value and an error (\<open>None\<close> is
  \<^verbatim>\<open>nil\<close>): \<^verbatim>\<open>createTree()\<close>, \<^verbatim>\<open>buildProg(dir)\<close>, \<^verbatim>\<open>buildACI(dir)\<close> and
  \<^verbatim>\<open>ioutil.ReadFile(fn)\<close>. \<open>ts_URL\<close> is the address of the started test server and
  \<open>url_Parse\<close> is \<^verbatim>\<open>url.Parse\<close>, returning the host of the parsed address and
  an error.
\<close>

record env =
  Quote :: "string \<Rightarrow> string"
  createTree :: "string \<times> string option"
  buildProg :: "string \<Rightarrow> string option"
  buildACI :: "string \<Rightarrow> string \<times> string option"
  ReadFile :: "string \<Rightarrow> string \<times> string option"
  ts_URL :: string
  url_Parse :: "string \<Rightarrow> string \<times> string option"

subsection \<open>The build\<close>

text \<open>
  \<^verbatim>\<open>prepareACI\<close> runs the steps in order and stops at the first error, which it
  wraps in a message of its own. (Its deferred calls only remove files.)
\<close>

definition prepareACI :: "env \<Rightarrow> string \<times> string option" where
  "prepareACI e =
     (case createTree e of
        (dir, Some err) \<Rightarrow> ([], Some (''failed to build ACI tree: '' @ err))
      | (dir, None) \<Rightarrow>
          (case buildProg e dir of
             Some err \<Rightarrow> ([], Some (''failed to build test program: '' @ err))
           | None \<Rightarrow>
               (case buildACI e dir of
                  (fn, Some err) \<Rightarrow> ([], Some (''failed to build ACI: '' @ err))
                | (fn, None) \<Rightarrow>
                    (case ReadFile e fn of
                       (contents, Some err) \<Rightarrow>
                         ([], Some (''failed to read ACI to memory: '' @ err))
                     | (contents, None) \<Rightarrow> (contents, None)))))"

subsection \<open>The handler\<close>

definition getAuthPayload :: "Request \<Rightarrow> string \<Rightarrow> httpError + string" where
  "getAuthPayload r authType =
     (let auth = Get (Headers r) ''Authorization'' in
      if auth = [] then Inl \<lparr>code = StatusUnauthorized, message = ''No auth''\<rparr>
      else let parts = Split auth '' '' in
        if length parts \<noteq> 2
        then Inl \<lparr>code = StatusBadRequest, message = ''Malformed auth''\<rparr>
        else if parts ! 0 \<noteq> authType
        then Inl \<lparr>code = StatusUnauthorized, message = ''Wrong auth''\<rparr>
        else Inr (parts ! 1))"

text \<open>
  The fixed texts of two diagnostics. In the source the name of the header stands
  between two double quotes; a double quote is the byte 0x22.
\<close>

definition NoAuthorization :: string where
  "NoAuthorization = ''No '' @ [CHR 0x22] @ ''Authorization'' @ [CHR 0x22] @ '' header: ''"

definition BadlyFormed :: string where
  "BadlyFormed = ''Badly formed '' @ [CHR 0x22] @ ''Authorization'' @ [CHR 0x22] @ '' header''"

text \<open>
  The last part of \<^verbatim>\<open>ServeHTTP\<close>, reached when the switch on the auth mode falls
  through: the announcement, then the switch on the last element of the path.
\<close>

definition servePath :: "env \<Rightarrow> Request \<Rightarrow> event list" where
  "servePath e r =
     SendMsg (''Trying to serve '' @ Quote e (URL_String r)) #
     (if Base (URL_Path r) = ''prog.aci''
      then SendMsg ''  serving'' #
           (case prepareACI e of
              (data, Some err) \<Rightarrow>
                [WriteHeader StatusInternalServerError,
                 SendMsg (''    failed ('' @ err @ '')'')]
            | (data, None) \<Rightarrow> [Write data, SendMsg ''    done.''])
      else [SendMsg ''  not found.'', WriteHeader StatusNotFound])"

text \<open>
  \<^verbatim>\<open>ServeHTTP\<close>: \<open>Inl\<close> is the panic of the default case of the switch on the
  auth mode (nothing has been written or sent when it is reached); \<open>Inr\<close> is the
  list of the effects of a call that returns.
\<close>

definition ServeHTTP :: "env \<Rightarrow> serverHandler \<Rightarrow> Request \<Rightarrow> string + event list" where
  "ServeHTTP e h r =
     (if Method r = ''POST'' then Inr [WriteHeader StatusOK, SendStop]
      else if Method r \<noteq> ''GET'' then Inr [WriteHeader StatusMethodNotAllowed]
      else if auth h = ''none'' then Inr (servePath e r)
      else if auth h = ''basic'' then
        (case getAuthPayload r ''Basic'' of
           Inl httpErr \<Rightarrow>
             Inr [WriteHeader (code httpErr),
                  SendMsg (NoAuthorization @ message httpErr)]
         | Inr payload \<Rightarrow>
             (case DecodeString payload of
                None \<Rightarrow>
                  Inr [WriteHeader StatusBadRequest,
                       SendMsg BadlyFormed]
              | Some creds \<Rightarrow>
                  (let parts = Split creds '':'' in
                   if length parts \<noteq> 2
                   then Inr [WriteHeader StatusBadRequest,
                             SendMsg (BadlyFormed @ '' (2)'')]
                   else if parts ! 0 \<noteq> ''bar'' \<or> parts ! 1 \<noteq> ''baz''
                   then Inr [WriteHeader StatusUnauthorized,
                             SendMsg (''Bad credentials: '' @ Quote e creds)]
                   else Inr (servePath e r))))
      else if auth h = ''oauth'' then
        (case getAuthPayload r ''Bearer'' of
           Inl httpErr \<Rightarrow>
             Inr [WriteHeader (code httpErr),
                  SendMsg (NoAuthorization @ message httpErr)]
         | Inr payload \<Rightarrow>
             (if payload \<noteq> ''sometoken''
              then Inr [WriteHeader StatusUnauthorized,
                        SendMsg (''Bad token: '' @ Quote e payload)]
              else Inr (servePath e r)))
      else Inl ''Woe is me!'')"

text \<open>
  What a client and the control loop see of a call. The status is that of the first
  \<^verbatim>\<open>WriteHeader\<close>; a \<^verbatim>\<open>Write\<close> before any \<^verbatim>\<open>WriteHeader\<close>, and a return with
  neither, give 200. The body is what was written.
\<close>

fun status :: "event list \<Rightarrow> nat" where
  "status [] = StatusOK"
| "status (WriteHeader c # es) = c"
| "status (Write d # es) = StatusOK"
| "status (SendStop # es) = status es"
| "status (SendMsg m # es) = status es"

fun body :: "event list \<Rightarrow> string" where
  "body [] = []"
| "body (Write d # es) = d @ body es"
| "body (WriteHeader c # es) = body es"
| "body (SendStop # es) = body es"
| "body (SendMsg m # es) = body es"

fun msgs :: "event list \<Rightarrow> string list" where
  "msgs [] = []"
| "msgs (SendMsg m # es) = m # msgs es"
| "msgs (WriteHeader c # es) = msgs es"
| "msgs (Write d # es) = msgs es"
| "msgs (SendStop # es) = msgs es"

fun stops :: "event list \<Rightarrow> nat" where
  "stops [] = 0"
| "stops (SendStop # es) = Suc (stops es)"
| "stops (WriteHeader c # es) = stops es"
| "stops (Write d # es) = stops es"
| "stops (SendMsg m # es) = stops es"

subsection \<open>Start-up and the control loop\<close>

text \<open>
  \<^verbatim>\<open>fmt.Println\<close> writes its argument and a line feed. The standard output is
  modelled as the list of the texts written, one per call.
\<close>

definition Println :: "string \<Rightarrow> string" where
  "Println s = s @ [CHR 0x0A]"

text \<open>
  What the \<^verbatim>\<open>select\<close> statement of \<^verbatim>\<open>loop\<close> receives: a value from the stop
  channel or a diagnostic from the message channel. The loop is run on the sequence
  of the values that arrive. It returns when it receives from the stop channel; when
  nothing is left to receive it waits in \<^verbatim>\<open>select\<close>, and has not returned. The
  result is where the loop is (\<open>Stopped\<close>: it has returned) and what it has
  printed.
\<close>

datatype received = Stop | Msg string

datatype control = Running | Stopped

fun loop :: "received list \<Rightarrow> control \<times> string list" where
  "loop [] = (Running, [])"
| "loop (Stop # rs) = (Stopped, [])"
| "loop (Msg m # rs) = (case loop rs of (c, out) \<Rightarrow> (c, Println m # out))"

definition typesStr :: string where
  "typesStr = ''none, basic, oauth''"

text \<open>
  The loop of \<^verbatim>\<open>startServer\<close> over the known types: the first type equal to the
  argument, and the empty string when there is none.
\<close>

fun findType :: "string list \<Rightarrow> string \<Rightarrow> string" where
  "findType [] a = []"
| "findType (v # vs) a = (if v = a then v else findType vs a)"

definition quoted :: "string \<Rightarrow> string" where
  "quoted s = [CHR 0x22] @ s @ [CHR 0x22]"

definition printCreds :: "string \<Rightarrow> string \<Rightarrow> string \<Rightarrow> string" where
  "printCreds host a creds =
     [CHR 0x0A] @ ''{'' @ [CHR 0x0A] @
     [CHR 0x09] @ quoted ''rktKind'' @ '': '' @ quoted ''auth'' @ '','' @ [CHR 0x0A] @
     [CHR 0x09] @ quoted ''rktVersion'' @ '': '' @ quoted ''v1'' @ '','' @ [CHR 0x0A] @
     [CHR 0x09] @ quoted ''domains'' @ '': ['' @ quoted host @ ''],'' @ [CHR 0x0A] @
     [CHR 0x09] @ quoted ''type'' @ '': '' @ quoted a @ '','' @ [CHR 0x0A] @
     [CHR 0x09] @ quoted ''credentials'' @ '':'' @ [CHR 0x0A] @
     [CHR 0x09] @ ''{'' @ [CHR 0x0A] @
     [CHR 0x09, CHR 0x09] @ creds @ [CHR 0x0A] @
     [CHR 0x09] @ ''}'' @ [CHR 0x0A] @
     ''}'' @ [CHR 0x0A] @ [CHR 0x0A]"

definition credsBasic :: string where
  "credsBasic =
     quoted ''user'' @ '': '' @ quoted ''bar'' @ '','' @ [CHR 0x0A] @
     [CHR 0x09, CHR 0x09] @ quoted ''password'' @ '': '' @ quoted ''baz''"

definition credsOAuth :: string where
  "credsOAuth = quoted ''token'' @ '': '' @ quoted ''sometoken''"

text \<open>
  How a run of \<^verbatim>\<open>startServer\<close> ends: it returns an error or \<^verbatim>\<open>nil\<close>, it
  panics, it waits in the loop for ever, or it waits for ever in the deferred
  \<^verbatim>\<open>ts.Close()\<close>. A run is described by the handler it has constructed (if it
  got that far), by what it has printed and by how it ends.
\<close>

datatype ending = Returned "string option" | Panicked string | Waiting | Closing

text \<open>
  The values that handlers still offer on the channels when the loop has returned:
  those after the first stop signal. Nobody receives them.
\<close>

fun unreceived :: "received list \<Rightarrow> received list" where
  "unreceived [] = []"
| "unreceived (Stop # rs) = rs"
| "unreceived (Msg m # rs) = unreceived rs"

text \<open>
  \<^verbatim>\<open>defer ts.Close()\<close>: once the test server is started, \<^verbatim>\<open>startServer\<close>
  closes it on every way out. \<^verbatim>\<open>httptest.Server.Close\<close> blocks until the
  outstanding requests have completed. A handler that offers a value on a channel
  from which nobody receives any more never completes, so with such a value offered
  the call never ends; with none, \<^verbatim>\<open>startServer\<close> ends the way it was about to.
\<close>

definition Close :: "received list \<Rightarrow> ending \<Rightarrow> ending" where
  "Close offered how = (if offered = [] then how else Closing)"

record run =
  server :: "serverHandler option"
  stdout :: "string list"
  ending :: ending

definition startServer :: "env \<Rightarrow> string list \<Rightarrow> received list \<Rightarrow> run" where
  "startServer e args rs =
     (if length args < 1
      then \<lparr>server = None, stdout = [],
            ending = Returned (Some (''expected a type - '' @ typesStr))\<rparr>
      else let a = findType (Split typesStr '', '') (args ! 0) in
        if a = []
        then \<lparr>server = None, stdout = [],
              ending = Returned (Some (''wrong type '' @ Quote e (args ! 0) @
                                       '', should, be '' @ typesStr))\<rparr>
        else let h = \<lparr>auth = a\<rparr> in
          (case url_Parse e (ts_URL e) of
             (host, Some err) \<Rightarrow>
               \<lparr>server = Some h, stdout = [], ending = Close rs (Returned (Some err))\<rparr>
           | (host, None) \<Rightarrow>
               (case (if a = ''none'' then Some []
                      else if a = ''basic'' then Some [printCreds host a credsBasic]
                      else if a = ''oauth'' then Some [printCreds host a credsOAuth]
                      else None) of
                  None \<Rightarrow>
                    \<lparr>server = Some h, stdout = [],
                     ending = Close rs (Panicked ''Woe is me!'')\<rparr>
                | Some creds \<Rightarrow>
                    (let ready = ''Ready, waiting for connections at '' @ ts_URL e @
                                 [CHR 0x0A]
                     in case loop rs of
                          (Stopped, out) \<Rightarrow>
                            \<lparr>server = Some h,
                             stdout = creds @ [ready] @ out @ [Println ''Byebye''],
                             ending = Close (unreceived rs) (Returned None)\<rparr>
                        | (Running, out) \<Rightarrow>
                            \<lparr>server = Some h,
                             stdout = creds @ [ready] @ out,
                             ending = Waiting\<rparr>))))"

text \<open>
  The effects of a call of the handler; a call that panics has had none.
\<close>

definition effects :: "string + event list \<Rightarrow> event list" where
  "effects res = (case res of Inl p \<Rightarrow> [] | Inr es \<Rightarrow> es)"

subsection \<open>The validator in the words of the specification\<close>

text \<open>
  The value of the \<open>Authorization\<close> header that the handler reads, and whether the
  request has no such header at all.
\<close>

definition headerValue :: "Request \<Rightarrow> string" where
  "headerValue r = Get (Headers r) ''Authorization''"

definition headerAbsent :: "Request \<Rightarrow> bool" where
  "headerAbsent r = (case Headers r ''Authorization'' of None \<Rightarrow> True | Some vs \<Rightarrow> vs = [])"

text \<open>
  The rules of mode Basic and of mode OAuth as the specification lists them, first
  match first: the status of the rejection, or \<open>None\<close> when the request is accepted.
  \<open>missing\<close> says whether the header counts as absent.
\<close>

definition validateBasic :: "bool \<Rightarrow> string \<Rightarrow> nat option" where
  "validateBasic missing header =
     (if missing then Some 401
      else if length (Split header '' '') \<noteq> 2 then Some 400
      else if Split header '' '' ! 0 \<noteq> ''Basic'' then Some 401
      else case DecodeString (Split header '' '' ! 1) of
             None \<Rightarrow> Some 400
           | Some decoded \<Rightarrow>
               if length (Split decoded '':'') \<noteq> 2 then Some 400
               else if (Split decoded '':'' ! 0, Split decoded '':'' ! 1) \<noteq> (''bar'', ''baz'')
               then Some 401
               else None)"

definition validateOAuth :: "bool \<Rightarrow> string \<Rightarrow> nat option" where
  "validateOAuth missing header =
     (if missing then Some 401
      else if length (Split header '' '') \<noteq> 2 then Some 400
      else if Split header '' '' ! 0 \<noteq> ''Bearer'' then Some 401
      else if Split header '' '' ! 1 \<noteq> ''sometoken'' then Some 401
      else None)"

text \<open>
  A request carries the credentials of the mode when the mode is \<open>none\<close>; or the
  mode is \<open>basic\<close> and the header is \<open>Basic\<close>, a space and the base64 encoding of
  \<open>bar:baz\<close>; or the mode is \<open>oauth\<close> and the header is \<open>Bearer sometoken\<close>.
\<close>

definition authenticated :: "serverHandler \<Rightarrow> Request \<Rightarrow> bool" where
  "authenticated h r =
     (auth h = ''none'' \<or>
      auth h = ''basic'' \<and> take 6 (headerValue r) = ''Basic '' \<and>
        DecodeString (drop 6 (headerValue r)) = Some ''bar:baz'' \<or>
      auth h = ''oauth'' \<and> headerValue r = ''Bearer sometoken'')"

subsection \<open>The control loop in the words of the specification\<close>

text \<open>
  A machine of two states. In \<open>Running\<close> a stop signal leads to \<open>Stopped\<close> and
  prints the farewell; a diagnostic is printed and the machine stays in \<open>Running\<close>.
  Nothing leaves \<open>Stopped\<close>. A transition gives the next state and what is printed.
\<close>

fun transition :: "control \<Rightarrow> received \<Rightarrow> control \<times> string list" where
  "transition Running Stop = (Stopped, [Println ''Byebye''])"
| "transition Running (Msg m) = (Running, [Println m])"
| "transition Stopped x = (Stopped, [])"

fun machine :: "control \<Rightarrow> received list \<Rightarrow> control \<times> string list" where
  "machine c [] = (c, [])"
| "machine c (x # xs) =
     (case transition c x of
        (c', out) \<Rightarrow> (case machine c' xs of (c'', out') \<Rightarrow> (c'', out @ out')))"

subsection \<open>Sample inputs\<close>

definition sampleEnv :: env where
  "sampleEnv =
     \<lparr>Quote = quoted,
      createTree = (''ACI'', None),
      buildProg = (\<lambda>dir. None),
      buildACI = (\<lambda>dir. (''prog-build.aci'', None)),
      ReadFile = (\<lambda>fn. (''image'', None)),
      ts_URL = ''https://127.0.0.1:48608'',
      url_Parse = (\<lambda>u. (drop 8 u, None))\<rparr>"

definition request :: "string \<Rightarrow> string \<Rightarrow> Header \<Rightarrow> Request" where
  "request m path hs = \<lparr>Method = m, Headers = hs, URL_Path = path, URL_String = path\<rparr>"

definition authorization :: "string \<Rightarrow> Header" where
  "authorization v = [''Authorization'' \<mapsto> [v]]"

text \<open>
  The surroundings of \<open>sampleEnv\<close>, except that the compiler fails.
\<close>

definition failingEnv :: env where
  "failingEnv = sampleEnv\<lparr>buildProg := (\<lambda>dir. Some ''exit status 2'')\<rparr>"

section \<open>Facts about the library functions and the samples\<close>

lemma Split_Nil: "Split [] [c] = [[]]"
  by (simp add: Split.simps)

lemma Split_Cons:
  "Split (x # xs) [c] =
     (if x = c then [] # Split xs [c]
      else (x # hd (Split xs [c])) # tl (Split xs [c]))"
proof (cases "x = c")
  case True
  then show ?thesis by (simp add: Split.simps [of "c # xs"])
next
  case False
  then show ?thesis
    by (cases "Index xs [c]") (simp_all add: Split.simps [of "x # xs"] Split.simps [of xs])
qed

lemma Split_not_Nil: "Split s [c] \<noteq> []"
  by (cases s) (simp_all add: Split_Nil Split_Cons)

lemma Split_one: "Split s [c] = [a] \<longleftrightarrow> s = a \<and> c \<notin> set a"
proof (induction s arbitrary: a)
  case Nil
  then show ?case by (auto simp: Split_Nil)
next
  case (Cons x xs)
  show ?case
  proof (cases "x = c")
    case True
    then show ?thesis by (auto simp: Split_Cons Split_not_Nil)
  next
    case False
    obtain p ps where sp: "Split xs [c] = p # ps"
      using Split_not_Nil [of xs c] by (cases "Split xs [c]") auto
    show ?thesis
    proof (cases ps)
      case Nil
      with sp Cons.IH [of p] False show ?thesis
        by (auto simp: Split_Cons)
    next
      case (Cons q qs)
      with sp Cons.IH False show ?thesis
        by (auto simp: Split_Cons)
    qed
  qed
qed

lemma Split_two:
  "Split s [c] = [a, b] \<longleftrightarrow> s = a @ c # b \<and> c \<notin> set a \<and> c \<notin> set b"
proof (induction s arbitrary: a)
  case Nil
  then show ?case by (auto simp: Split_Nil)
next
  case (Cons x xs)
  show ?case
  proof (cases "x = c")
    case True
    then show ?thesis
      by (auto simp: Split_Cons Split_one Cons_eq_append_conv)
  next
    case False
    obtain p ps where sp: "Split xs [c] = p # ps"
      using Split_not_Nil [of xs c] by (cases "Split xs [c]") auto
    have "Split (x # xs) [c] = [a, b] \<longleftrightarrow> (\<exists>a'. a = x # a' \<and> Split xs [c] = [a', b])"
      using False sp by (auto simp: Split_Cons)
    also have "\<dots> \<longleftrightarrow> (\<exists>a'. a = x # a' \<and> xs = a' @ c # b \<and> c \<notin> set a' \<and> c \<notin> set b)"
      using Cons.IH by simp
    also have "\<dots> \<longleftrightarrow> x # xs = a @ c # b \<and> c \<notin> set a \<and> c \<notin> set b"
      using False by (cases a) auto
    finally show ?thesis .
  qed
qed

lemma split_two_tokens:
  "c \<notin> set a \<Longrightarrow> c \<notin> set b \<Longrightarrow> Split (a @ c # b) [c] = [a, b]"
  by (simp add: Split_two)

lemma split_basic_good: "Split ''Basic YmFyOmJheg=='' '' '' = [''Basic'', ''YmFyOmJheg=='']"
  using split_two_tokens [of "CHR '' ''" "''Basic''" "''YmFyOmJheg==''"] by simp

lemma split_bar_baz: "Split ''bar:baz'' '':'' = [''bar'', ''baz'']"
  using split_two_tokens [of "CHR '':''" "''bar''" "''baz''"] by simp

lemma decode_bar_baz: "DecodeString ''YmFyOmJheg=='' = Some ''bar:baz''"
  by (simp add: DecodeString_def decodeMap_def encodeStd_def assemble_def byte_def
      char_of_eq_iff)

lemma getAuthPayload_cases:
  "getAuthPayload r t =
     (if headerValue r = [] then Inl \<lparr>code = 401, message = ''No auth''\<rparr>
      else if length (Split (headerValue r) '' '') \<noteq> 2
      then Inl \<lparr>code = 400, message = ''Malformed auth''\<rparr>
      else if Split (headerValue r) '' '' ! 0 \<noteq> t
      then Inl \<lparr>code = 401, message = ''Wrong auth''\<rparr>
      else Inr (Split (headerValue r) '' '' ! 1))"
  by (simp add: getAuthPayload_def headerValue_def Let_def)

lemma headerAbsent_empty: "headerAbsent r \<Longrightarrow> headerValue r = []"
  by (auto simp: headerAbsent_def headerValue_def Get_def split: option.splits)

lemma sample_header [simp]:
  "headerValue (request m p (authorization v)) = v"
  "headerAbsent (request m p (authorization v)) = False"
  "headerValue (request m p Map.empty) = []"
  "headerAbsent (request m p Map.empty) = True"
  by (simp_all add: headerValue_def headerAbsent_def request_def authorization_def Get_def)

lemma sample_request [simp]:
  "Method (request m p hs) = m"
  "URL_Path (request m p hs) = p"
  "URL_String (request m p hs) = p"
  by (simp_all add: request_def)

lemma split_bearer_good: "Split ''Bearer sometoken'' '' '' = [''Bearer'', ''sometoken'']"
  using split_two_tokens [of "CHR '' ''" "''Bearer''" "''sometoken''"] by simp

lemma split_basic_lowercase: "Split ''basic YmFyOmJheg=='' '' '' = [''basic'', ''YmFyOmJheg=='']"
  using split_two_tokens [of "CHR '' ''" "''basic''" "''YmFyOmJheg==''"] by simp

lemma decodeMap_space: "decodeMap (CHR '' '') = None"
  by (simp add: decodeMap_def encodeStd_def)

lemma decodeQuanta_space: "CHR '' '' \<in> set s \<Longrightarrow> decodeQuanta s = None"
proof (induction s rule: decodeQuanta.induct)
  case (2 a b c d)
  then show ?case
    by (auto simp: decodeMap_space split: option.splits)
next
  case (3 a b c d v va)
  show ?case
  proof (cases "CHR '' '' \<in> set (v # va)")
    case True
    show ?thesis
    proof (cases "decodeMap a")
      case None
      then show ?thesis by simp
    next
      case xa: (Some x)
      show ?thesis
      proof (cases "decodeMap b")
        case None
        with xa show ?thesis by simp
      next
        case yb: (Some y)
        show ?thesis
        proof (cases "decodeMap c")
          case None
          with xa yb show ?thesis by simp
        next
          case zc: (Some z)
          show ?thesis
          proof (cases "decodeMap d")
            case None
            with xa yb zc show ?thesis by simp
          next
            case wd: (Some w)
            have "decodeQuanta (v # va) = None"
              using "3.IH" [OF refl xa refl yb refl zc wd True] .
            with xa yb zc wd show ?thesis by simp
          qed
        qed
      qed
    qed
  next
    case False
    with "3.prems" have "CHR '' '' \<in> {a, b, c, d}" by auto
    then show ?thesis
      by (auto simp: decodeMap_space split: option.splits)
  qed
qed simp_all

lemma decodeQuanta_no_space: "decodeQuanta s = Some out \<Longrightarrow> CHR '' '' \<notin> set s"
  using decodeQuanta_space [of s] by auto

lemma DecodeString_no_space: "DecodeString s = Some out \<Longrightarrow> CHR '' '' \<notin> set s"
proof
  assume dec: "DecodeString s = Some out" and mem: "CHR '' '' \<in> set s"
  from dec have "CHR '' '' \<notin> set (filter (\<lambda>c. c \<noteq> CHR 0x0D \<and> c \<noteq> CHR 0x0A) s)"
    unfolding DecodeString_def by (rule decodeQuanta_no_space)
  with mem show False by simp
qed

lemma length_two: "length xs = 2 \<longleftrightarrow> (\<exists>a b. xs = [a, b])"
  by (cases xs; cases "tl xs") auto

lemma basic_accepts_iff:
  "validateBasic (v = []) v = None \<longleftrightarrow>
     take 6 v = ''Basic '' \<and> DecodeString (drop 6 v) = Some ''bar:baz''"
proof
  assume ok: "validateBasic (v = []) v = None"
  then obtain a b where ab: "Split v '' '' = [a, b]"
    by (auto simp: validateBasic_def length_two split: if_splits)
  with ok have a: "a = ''Basic''"
    by (auto simp: validateBasic_def split: if_splits)
  from ok ab obtain creds where dec: "DecodeString b = Some creds"
    by (auto simp: validateBasic_def split: if_splits option.splits)
  with ok ab a obtain u p where up: "Split creds '':'' = [u, p]"
    by (auto simp: validateBasic_def length_two split: if_splits)
  with ok ab a dec have "u = ''bar''" "p = ''baz''"
    by (auto simp: validateBasic_def split: if_splits)
  with up have "creds = ''bar:baz''"
    by (simp add: Split_two)
  moreover from ab a have "v = ''Basic '' @ b"
    by (simp add: Split_two)
  ultimately show "take 6 v = ''Basic '' \<and> DecodeString (drop 6 v) = Some ''bar:baz''"
    using dec by simp
next
  assume rhs: "take 6 v = ''Basic '' \<and> DecodeString (drop 6 v) = Some ''bar:baz''"
  then have v: "v = ''Basic '' @ drop 6 v"
    by (metis append_take_drop_id)
  from rhs have "CHR '' '' \<notin> set (drop 6 v)"
    using DecodeString_no_space by blast
  then have "Split (''Basic'' @ CHR '' '' # drop 6 v) '' '' = [''Basic'', drop 6 v]"
    by (intro split_two_tokens) simp_all
  with v have sp: "Split v '' '' = [''Basic'', drop 6 v]"
    by simp
  from v have "v \<noteq> []" by auto
  with sp rhs show "validateBasic (v = []) v = None"
    by (simp add: validateBasic_def split_bar_baz)
qed

lemma oauth_accepts_iff:
  "validateOAuth (v = []) v = None \<longleftrightarrow> v = ''Bearer sometoken''"
proof
  assume ok: "validateOAuth (v = []) v = None"
  then obtain a b where ab: "Split v '' '' = [a, b]"
    by (auto simp: validateOAuth_def length_two split: if_splits)
  with ok have "a = ''Bearer''" "b = ''sometoken''"
    by (auto simp: validateOAuth_def split: if_splits)
  with ab show "v = ''Bearer sometoken''"
    by (simp add: Split_two)
next
  assume "v = ''Bearer sometoken''"
  then show "validateOAuth (v = []) v = None"
    by (simp add: validateOAuth_def split_bearer_good)
qed

lemma ServeHTTP_get:
  assumes "Method r = ''GET''"
    and "auth h = ''none'' \<or> auth h = ''basic'' \<or> auth h = ''oauth''"
  shows "if authenticated h r then ServeHTTP e h r = Inr (servePath e r)
         else \<exists>st m. ServeHTTP e h r = Inr [WriteHeader st, SendMsg m]"
proof -
  let ?v = "headerValue r"
  have basic: "auth h = ''basic'' \<Longrightarrow>
      (case validateBasic (?v = []) ?v of
         Some st \<Rightarrow> \<exists>m. ServeHTTP e h r = Inr [WriteHeader st, SendMsg m]
       | None \<Rightarrow> ServeHTTP e h r = Inr (servePath e r))"
    using assms(1)
    by (auto simp: ServeHTTP_def validateBasic_def getAuthPayload_cases Let_def
             split: option.splits)
  have oauth: "auth h = ''oauth'' \<Longrightarrow>
      (case validateOAuth (?v = []) ?v of
         Some st \<Rightarrow> \<exists>m. ServeHTTP e h r = Inr [WriteHeader st, SendMsg m]
       | None \<Rightarrow> ServeHTTP e h r = Inr (servePath e r))"
    using assms(1)
    by (auto simp: ServeHTTP_def validateOAuth_def getAuthPayload_cases)
  from assms(2) consider "auth h = ''none''" | "auth h = ''basic''" | "auth h = ''oauth''"
    by blast
  then show ?thesis
  proof cases
    case 1
    with assms(1) show ?thesis
      by (simp add: authenticated_def ServeHTTP_def)
  next
    case 2
    then have "authenticated h r \<longleftrightarrow> validateBasic (?v = []) ?v = None"
      by (simp add: authenticated_def basic_accepts_iff)
    with basic [OF 2] show ?thesis
      by (cases "validateBasic (?v = []) ?v") auto
  next
    case 3
    then have "authenticated h r \<longleftrightarrow> validateOAuth (?v = []) ?v = None"
      by (simp add: authenticated_def oauth_accepts_iff)
    with oauth [OF 3] show ?thesis
      by (cases "validateOAuth (?v = []) ?v") auto
  qed
qed


lemma prepareACI_sample: "prepareACI sampleEnv = (''image'', None)"
  by (simp add: prepareACI_def sampleEnv_def)

lemma prepareACI_failing:
  "prepareACI failingEnv = ([], Some ''failed to build test program: exit status 2'')"
  by (simp add: prepareACI_def failingEnv_def sampleEnv_def)

lemma Base_sample: "Base ''/x/prog.aci'' = ''prog.aci''" "Base ''/x/other'' = ''other''"
  by (simp_all add: Base_def)

lemma authenticated_sample:
  "authenticated \<lparr>auth = ''basic''\<rparr> (request m p (authorization ''Basic YmFyOmJheg==''))"
  "authenticated \<lparr>auth = ''none''\<rparr> r"
  by (simp_all add: authenticated_def decode_bar_baz)

lemma msgs_servePath:
  "msgs (servePath e r) =
     (''Trying to serve '' @ Quote e (URL_String r)) #
     (if Base (URL_Path r) = ''prog.aci''
      then [''  serving'',
            case prepareACI e of
              (data, None) \<Rightarrow> ''    done.''
            | (data, Some err) \<Rightarrow> ''    failed ('' @ err @ '')'']
      else [''  not found.''])"
  by (simp add: servePath_def split: prod.splits option.splits)

lemma split_types: "Split typesStr '', '' = [''none'', ''basic'', ''oauth'']"
  by (simp add: typesStr_def Split.simps [of "''none, basic, oauth''"]
      Split.simps [of "''basic, oauth''"] Split.simps [of "''oauth''"])

lemma findType_types:
  "findType (Split typesStr '', '') a =
     (if a = ''none'' \<or> a = ''basic'' \<or> a = ''oauth'' then a else [])"
  by (simp add: split_types)

lemma machine_Stopped: "machine Stopped rs = (Stopped, [])"
  by (induction rs) simp_all

lemma machine_loop:
  "machine Running rs =
     (fst (loop rs),
      snd (loop rs) @ (if fst (loop rs) = Stopped then [Println ''Byebye''] else []))"
proof (induction rs)
  case Nil
  show ?case by simp
next
  case (Cons x xs)
  show ?case
  proof (cases x)
    case Stop
    then show ?thesis by (simp add: machine_Stopped)
  next
    case (Msg m)
    with Cons show ?thesis by (simp split: prod.splits)
  qed
qed


lemma sample_parse: "url_Parse sampleEnv (ts_URL sampleEnv) = (''127.0.0.1:48608'', None)"
  by (simp add: sampleEnv_def)

lemma startServer_started:
  assumes "args \<noteq> []"
    and "hd args = ''none'' \<or> hd args = ''basic'' \<or> hd args = ''oauth''"
    and "snd (url_Parse e (ts_URL e)) = None"
  shows "startServer e args rs =
           \<lparr>server = Some \<lparr>auth = hd args\<rparr>,
            stdout = stdout (startServer e args []) @ snd (machine Running rs),
            ending = (if fst (machine Running rs) = Stopped
                      then Close (unreceived rs) (Returned None)
                      else Waiting)\<rparr>"
proof -
  from assms(1) have hd: "args ! 0 = hd args" and len: "\<not> length args < 1"
    by (cases args; simp)+
  obtain host where parse: "url_Parse e (ts_URL e) = (host, None)"
    using assms(3) by (cases "url_Parse e (ts_URL e)") auto
  obtain c out where lp: "loop rs = (c, out)"
    by (cases "loop rs")
  from assms(2) hd len parse lp show ?thesis
    by (cases c) (auto simp: startServer_def findType_types machine_loop Let_def)
qed

lemma sample_Quote: "Quote sampleEnv = quoted"
  by (simp add: sampleEnv_def)

lemma accepted_sample:
  "ServeHTTP e \<lparr>auth = ''basic''\<rparr> (request ''GET'' p (authorization ''Basic YmFyOmJheg=='')) =
     Inr (servePath e (request ''GET'' p (authorization ''Basic YmFyOmJheg=='')))"
  using ServeHTTP_get
    [of "request ''GET'' p (authorization ''Basic YmFyOmJheg=='')" "\<lparr>auth = ''basic''\<rparr>" e]
  by (simp add: authenticated_sample)

section \<open>The claims\<close>

subsection \<open>C1: validation in mode Basic\<close>

text \<open>
  C1, as amended. For every GET request handled in mode Basic: if the
  \<open>Authorization\<close> header is absent or its value is empty, the response status is
  401; otherwise, if the value does not consist of exactly two space-separated
  tokens, 400; if the first token is not \<open>Basic\<close>, 401; if the second token is not
  valid base64, 400; if the decoded payload does not split on the colon into exactly
  two fields, 400; if the two fields are not \<open>bar\<close> and \<open>baz\<close>, 401; otherwise the
  request is accepted and the handler goes on to serve the path. A rejection writes
  the status and sends one diagnostic.
\<close>

theorem C1_basic_validation:
  assumes "Method r = ''GET''" and "auth h = ''basic''"
  shows "case validateBasic (headerAbsent r \<or> headerValue r = []) (headerValue r) of
           Some st \<Rightarrow> \<exists>m. ServeHTTP e h r = Inr [WriteHeader st, SendMsg m]
         | None \<Rightarrow> ServeHTTP e h r = Inr (servePath e r)"
  using assms headerAbsent_empty [of r]
  by (auto simp: ServeHTTP_def validateBasic_def getAuthPayload_cases Let_def
           split: option.splits)

theorem C1_basic_validation_witness:
  "Method (request ''GET'' ''/x/prog.aci'' (authorization ''Basic YmFyOmJheg=='')) = ''GET'' \<and>
   auth \<lparr>auth = ''basic''\<rparr> = ''basic'' \<and>
   ServeHTTP sampleEnv \<lparr>auth = ''basic''\<rparr>
       (request ''GET'' ''/x/prog.aci'' (authorization ''Basic YmFyOmJheg=='')) =
     Inr (servePath sampleEnv
            (request ''GET'' ''/x/prog.aci'' (authorization ''Basic YmFyOmJheg=='')))"
  using C1_basic_validation
    [of "request ''GET'' ''/x/prog.aci'' (authorization ''Basic YmFyOmJheg=='')"
        "\<lparr>auth = ''basic''\<rparr>" sampleEnv]
  by (simp add: validateBasic_def split_basic_good split_bar_baz decode_bar_baz)

text \<open>
  C1 as it is stated lets only a request without the header fall under the first
  rule. A request whose \<open>Authorization\<close> header is there with an empty value has no
  two tokens, which by the second rule is a 400; the handler answers 401.
\<close>

theorem C1_empty_header_counterexample:
  "Method (request ''GET'' ''/x/prog.aci'' (authorization '''')) = ''GET'' \<and>
   \<not> headerAbsent (request ''GET'' ''/x/prog.aci'' (authorization '''')) \<and>
   validateBasic (headerAbsent (request ''GET'' ''/x/prog.aci'' (authorization '''')))
     (headerValue (request ''GET'' ''/x/prog.aci'' (authorization ''''))) = Some 400 \<and>
   ServeHTTP sampleEnv \<lparr>auth = ''basic''\<rparr>
       (request ''GET'' ''/x/prog.aci'' (authorization '''')) =
     Inr [WriteHeader 401, SendMsg (NoAuthorization @ ''No auth'')]"
  by (simp add: validateBasic_def Split_Nil ServeHTTP_def getAuthPayload_cases)

subsection \<open>C2: validation in mode OAuth\<close>

text \<open>
  C2, as amended. For every GET request handled in mode OAuth: if the
  \<open>Authorization\<close> header is absent or its value is empty, the response status is
  401; otherwise, if the value has other than exactly two space-separated tokens,
  400; if the first token is not \<open>Bearer\<close>, 401; if the second token is not
  \<open>sometoken\<close>, 401; otherwise the request is accepted and the handler goes on to
  serve the path.
\<close>

theorem C2_oauth_validation:
  assumes "Method r = ''GET''" and "auth h = ''oauth''"
  shows "case validateOAuth (headerAbsent r \<or> headerValue r = []) (headerValue r) of
           Some st \<Rightarrow> \<exists>m. ServeHTTP e h r = Inr [WriteHeader st, SendMsg m]
         | None \<Rightarrow> ServeHTTP e h r = Inr (servePath e r)"
  using assms headerAbsent_empty [of r]
  by (auto simp: ServeHTTP_def validateOAuth_def getAuthPayload_cases)

theorem C2_oauth_validation_witness:
  "Method (request ''GET'' ''/x/prog.aci'' (authorization ''Bearer sometoken'')) = ''GET'' \<and>
   auth \<lparr>auth = ''oauth''\<rparr> = ''oauth'' \<and>
   ServeHTTP sampleEnv \<lparr>auth = ''oauth''\<rparr>
       (request ''GET'' ''/x/prog.aci'' (authorization ''Bearer sometoken'')) =
     Inr (servePath sampleEnv
            (request ''GET'' ''/x/prog.aci'' (authorization ''Bearer sometoken'')))"
  using C2_oauth_validation
    [of "request ''GET'' ''/x/prog.aci'' (authorization ''Bearer sometoken'')"
        "\<lparr>auth = ''oauth''\<rparr>" sampleEnv]
  by (simp add: validateOAuth_def split_bearer_good)

text \<open>
  C2 as it is stated gives a header that is there with an empty value the status
  400 of its second rule; the handler answers 401.
\<close>

theorem C2_empty_header_counterexample:
  "Method (request ''GET'' ''/x/prog.aci'' (authorization '''')) = ''GET'' \<and>
   \<not> headerAbsent (request ''GET'' ''/x/prog.aci'' (authorization '''')) \<and>
   validateOAuth (headerAbsent (request ''GET'' ''/x/prog.aci'' (authorization '''')))
     (headerValue (request ''GET'' ''/x/prog.aci'' (authorization ''''))) = Some 400 \<and>
   ServeHTTP sampleEnv \<lparr>auth = ''oauth''\<rparr>
       (request ''GET'' ''/x/prog.aci'' (authorization '''')) =
     Inr [WriteHeader 401, SendMsg (NoAuthorization @ ''No auth'')]"
  by (simp add: validateOAuth_def Split_Nil ServeHTTP_def getAuthPayload_cases)

subsection \<open>C3: the diagnostics of a GET request\<close>

text \<open>
  C3, as amended. A GET request that is rejected emits exactly one diagnostic. A GET
  request that passes authentication first emits the line that announces the URL;
  then, when the last element of its path is \<open>prog.aci\<close>, the line \<open>serving\<close>
  followed by \<open>done\<close> or \<open>failed\<close>, three lines in all and in that order; and
  otherwise the line \<open>not found\<close>, two lines in all.
\<close>

theorem C3_diagnostics:
  assumes "Method r = ''GET''"
    and "auth h = ''none'' \<or> auth h = ''basic'' \<or> auth h = ''oauth''"
  shows "if authenticated h r
         then (if Base (URL_Path r) = ''prog.aci''
               then \<exists>l. msgs (effects (ServeHTTP e h r)) =
                          [''Trying to serve '' @ Quote e (URL_String r), ''  serving'', l] \<and>
                        (l = ''    done.'' \<or> (\<exists>err. l = ''    failed ('' @ err @ '')''))
               else msgs (effects (ServeHTTP e h r)) =
                      [''Trying to serve '' @ Quote e (URL_String r), ''  not found.''])
         else length (msgs (effects (ServeHTTP e h r))) = 1"
proof (cases "authenticated h r")
  case True
  with ServeHTTP_get [OF assms, of e] have "effects (ServeHTTP e h r) = servePath e r"
    by (simp add: effects_def)
  with True show ?thesis
    by (auto simp: msgs_servePath split: prod.splits option.splits)
next
  case False
  with ServeHTTP_get [OF assms, of e] obtain st m
    where "ServeHTTP e h r = Inr [WriteHeader st, SendMsg m]"
    by auto
  with False show ?thesis
    by (simp add: effects_def)
qed

theorem C3_diagnostics_witness:
  "Method (request ''GET'' ''/x/prog.aci'' (authorization ''Basic YmFyOmJheg=='')) = ''GET'' \<and>
   authenticated \<lparr>auth = ''basic''\<rparr>
     (request ''GET'' ''/x/prog.aci'' (authorization ''Basic YmFyOmJheg=='')) \<and>
   Base (URL_Path (request ''GET'' ''/x/prog.aci'' (authorization ''Basic YmFyOmJheg==''))) =
     ''prog.aci'' \<and>
   msgs (effects (ServeHTTP sampleEnv \<lparr>auth = ''basic''\<rparr>
          (request ''GET'' ''/x/prog.aci'' (authorization ''Basic YmFyOmJheg=='')))) =
     [''Trying to serve '' @ quoted ''/x/prog.aci'', ''  serving'', ''    done.'']"
  using C3_diagnostics
    [of "request ''GET'' ''/x/prog.aci'' (authorization ''Basic YmFyOmJheg=='')"
        "\<lparr>auth = ''basic''\<rparr>" sampleEnv]
  by (simp add: authenticated_sample Base_sample accepted_sample effects_def
      msgs_servePath prepareACI_sample sample_Quote)

text \<open>
  C3 as it is stated counts two lines for an authenticated GET of \<open>prog.aci\<close> and
  one line for every other GET. In mode \<open>none\<close> the first emits three lines and a
  GET of another path emits two.
\<close>

theorem C3_three_lines_counterexample:
  "Method (request ''GET'' ''/x/prog.aci'' Map.empty) = ''GET'' \<and>
   Base (URL_Path (request ''GET'' ''/x/prog.aci'' Map.empty)) = ''prog.aci'' \<and>
   length (msgs (effects (ServeHTTP sampleEnv \<lparr>auth = ''none''\<rparr>
     (request ''GET'' ''/x/prog.aci'' Map.empty)))) = 3 \<and>
   Base (URL_Path (request ''GET'' ''/x/other'' Map.empty)) \<noteq> ''prog.aci'' \<and>
   length (msgs (effects (ServeHTTP sampleEnv \<lparr>auth = ''none''\<rparr>
     (request ''GET'' ''/x/other'' Map.empty)))) = 2"
  by (simp add: ServeHTTP_def effects_def msgs_servePath Base_sample prepareACI_sample)

subsection \<open>C4: POST\<close>

text \<open>
  C4. For every request whose method is POST, whatever its path, its headers and
  the auth mode of the handler, the handler writes status 200 and sends exactly one
  stop signal, and does nothing else: no credentials are looked at, no path, and no
  diagnostic is sent.
\<close>

theorem C4_post_stops:
  assumes "Method r = ''POST''"
  shows "ServeHTTP e h r = Inr [WriteHeader 200, SendStop] \<and>
         status (effects (ServeHTTP e h r)) = 200 \<and>
         stops (effects (ServeHTTP e h r)) = 1 \<and>
         msgs (effects (ServeHTTP e h r)) = []"
  using assms by (simp add: ServeHTTP_def effects_def)

theorem C4_post_stops_witness:
  "Method (request ''POST'' ''/anything'' (authorization ''Bearer wrongtoken'')) = ''POST'' \<and>
   ServeHTTP sampleEnv \<lparr>auth = ''basic''\<rparr>
       (request ''POST'' ''/anything'' (authorization ''Bearer wrongtoken'')) =
     Inr [WriteHeader 200, SendStop]"
  using C4_post_stops
    [of "request ''POST'' ''/anything'' (authorization ''Bearer wrongtoken'')"
        sampleEnv "\<lparr>auth = ''basic''\<rparr>"]
  by simp

subsection \<open>C5: serving the artifact\<close>

text \<open>
  C5. For every authenticated GET request whose last path element is \<open>prog.aci\<close>
  the outcome of the build decides the response: when the build succeeds, status 200
  with exactly the bytes it returned as the body; when it fails, status 500 with an
  empty body, and the error of the build appears in the diagnostic \<open>failed\<close> only.
\<close>

theorem C5_artifact_response:
  assumes "Method r = ''GET''" and "authenticated h r"
    and "Base (URL_Path r) = ''prog.aci''"
  shows "case prepareACI e of
           (data, None) \<Rightarrow>
             status (effects (ServeHTTP e h r)) = 200 \<and>
             body (effects (ServeHTTP e h r)) = data
         | (data, Some err) \<Rightarrow>
             status (effects (ServeHTTP e h r)) = 500 \<and>
             body (effects (ServeHTTP e h r)) = [] \<and>
             msgs (effects (ServeHTTP e h r)) =
               [''Trying to serve '' @ Quote e (URL_String r), ''  serving'',
                ''    failed ('' @ err @ '')'']"
proof -
  from assms(2) have "auth h = ''none'' \<or> auth h = ''basic'' \<or> auth h = ''oauth''"
    by (auto simp: authenticated_def)
  from ServeHTTP_get [OF assms(1) this, of e] assms(2)
  have "effects (ServeHTTP e h r) = servePath e r"
    by (simp add: effects_def)
  with assms(3) show ?thesis
    by (simp add: servePath_def split: prod.splits option.splits)
qed

theorem C5_artifact_response_witness:
  "Method (request ''GET'' ''/x/prog.aci'' (authorization ''Basic YmFyOmJheg=='')) = ''GET'' \<and>
   authenticated \<lparr>auth = ''basic''\<rparr>
     (request ''GET'' ''/x/prog.aci'' (authorization ''Basic YmFyOmJheg=='')) \<and>
   Base (URL_Path (request ''GET'' ''/x/prog.aci'' (authorization ''Basic YmFyOmJheg==''))) =
     ''prog.aci'' \<and>
   status (effects (ServeHTTP failingEnv \<lparr>auth = ''basic''\<rparr>
     (request ''GET'' ''/x/prog.aci'' (authorization ''Basic YmFyOmJheg=='')))) = 500 \<and>
   body (effects (ServeHTTP failingEnv \<lparr>auth = ''basic''\<rparr>
     (request ''GET'' ''/x/prog.aci'' (authorization ''Basic YmFyOmJheg=='')))) = []"
  using C5_artifact_response
    [of "request ''GET'' ''/x/prog.aci'' (authorization ''Basic YmFyOmJheg=='')"
        "\<lparr>auth = ''basic''\<rparr>" failingEnv]
  by (simp add: authenticated_sample Base_sample prepareACI_failing)

subsection \<open>C6: the control loop\<close>




subsection \<open>C7: mode None\<close>

text \<open>
  C7. In mode None every GET request is accepted, whatever its headers: when the
  last element of its path is \<open>prog.aci\<close> the handler goes on to serve the
  artifact, and for every other path it answers 404.
\<close>

theorem C7_mode_none:
  assumes "Method r = ''GET''" and "auth h = ''none''"
  shows "(Base (URL_Path r) = ''prog.aci'' \<longrightarrow>
            ServeHTTP e h r =
              Inr (SendMsg (''Trying to serve '' @ Quote e (URL_String r)) #
                   SendMsg ''  serving'' #
                   (case prepareACI e of
                      (data, None) \<Rightarrow> [Write data, SendMsg ''    done.'']
                    | (data, Some err) \<Rightarrow>
                        [WriteHeader 500, SendMsg (''    failed ('' @ err @ '')'')]))) \<and>
         (Base (URL_Path r) \<noteq> ''prog.aci'' \<longrightarrow>
            ServeHTTP e h r =
              Inr [SendMsg (''Trying to serve '' @ Quote e (URL_String r)),
                   SendMsg ''  not found.'', WriteHeader 404] \<and>
            status (effects (ServeHTTP e h r)) = 404)"
  using assms
  by (auto simp: ServeHTTP_def servePath_def effects_def split: option.splits prod.splits)

theorem C7_mode_none_witness:
  "Method (request ''GET'' ''/x/prog.aci'' (authorization ''Digest whatever'')) = ''GET'' \<and>
   auth \<lparr>auth = ''none''\<rparr> = ''none'' \<and>
   Base (URL_Path (request ''GET'' ''/x/prog.aci'' (authorization ''Digest whatever''))) =
     ''prog.aci'' \<and>
   ServeHTTP sampleEnv \<lparr>auth = ''none''\<rparr>
       (request ''GET'' ''/x/prog.aci'' (authorization ''Digest whatever'')) =
     Inr [SendMsg (''Trying to serve '' @ quoted ''/x/prog.aci''), SendMsg ''  serving'',
          Write ''image'', SendMsg ''    done.'']"
  using C7_mode_none
    [of "request ''GET'' ''/x/prog.aci'' (authorization ''Digest whatever'')"
        "\<lparr>auth = ''none''\<rparr>" sampleEnv]
  by (simp add: Base_sample prepareACI_sample sample_Quote)

subsection \<open>C8: the other methods\<close>

text \<open>
  C8. For every request whose method is neither GET nor POST the handler writes
  status 405 and returns; it looks at no credentials and sends neither a diagnostic
  nor a stop signal.
\<close>

theorem C8_other_methods:
  assumes "Method r \<noteq> ''GET''" and "Method r \<noteq> ''POST''"
  shows "ServeHTTP e h r = Inr [WriteHeader 405] \<and>
         status (effects (ServeHTTP e h r)) = 405 \<and>
         msgs (effects (ServeHTTP e h r)) = [] \<and>
         stops (effects (ServeHTTP e h r)) = 0"
  using assms by (simp add: ServeHTTP_def effects_def)

theorem C8_other_methods_witness:
  "Method (request ''PUT'' ''/x/prog.aci'' Map.empty) \<noteq> ''GET'' \<and>
   Method (request ''PUT'' ''/x/prog.aci'' Map.empty) \<noteq> ''POST'' \<and>
   ServeHTTP sampleEnv \<lparr>auth = ''oauth''\<rparr> (request ''PUT'' ''/x/prog.aci'' Map.empty) =
     Inr [WriteHeader 405]"
  using C8_other_methods
    [of "request ''PUT'' ''/x/prog.aci'' Map.empty" sampleEnv "\<lparr>auth = ''oauth''\<rparr>"]
  by simp

subsection \<open>C9: the panic of the handler cannot be reached\<close>

text \<open>
  C9. \<^verbatim>\<open>startServer\<close> constructs a handler exactly when its first argument is
  \<open>none\<close>, \<open>basic\<close> or \<open>oauth\<close>; otherwise it returns an error and has printed
  nothing. The handler it constructs has its first argument as the auth mode, and
  no call of a handler with one of the three modes panics: every call returns.
\<close>

theorem C9_no_panic:
  "(server (startServer e args rs) \<noteq> None \<longleftrightarrow>
      args \<noteq> [] \<and> (hd args = ''none'' \<or> hd args = ''basic'' \<or> hd args = ''oauth'')) \<and>
   (server (startServer e args rs) = None \<longrightarrow>
      stdout (startServer e args rs) = [] \<and>
      (\<exists>err. ending (startServer e args rs) = Returned (Some err))) \<and>
   (\<forall>h. server (startServer e args rs) = Some h \<longrightarrow>
      auth h = hd args \<and>
      ending (startServer e args rs) \<noteq> Panicked ''Woe is me!'' \<and>
      (\<forall>e' r. \<exists>es. ServeHTTP e' h r = Inr es)) \<and>
   (\<forall>h r. auth h = ''none'' \<or> auth h = ''basic'' \<or> auth h = ''oauth'' \<longrightarrow>
      (\<exists>es. ServeHTTP e h r = Inr es))"
proof -
  have handler: "\<exists>es. ServeHTTP e' h r = Inr es"
    if "auth h = ''none'' \<or> auth h = ''basic'' \<or> auth h = ''oauth''" for e' h r
    using that
    by (auto simp: ServeHTTP_def Let_def split: sum.splits option.splits)
  have hd: "args ! 0 = hd args" if "args \<noteq> []"
    using that by (cases args) simp_all
  show ?thesis
  proof (cases "args \<noteq> [] \<and> (hd args = ''none'' \<or> hd args = ''basic'' \<or> hd args = ''oauth'')")
    case True
    then have len: "\<not> length args < 1" by (cases args) simp_all
    obtain host err where parse: "url_Parse e (ts_URL e) = (host, err)"
      by (cases "url_Parse e (ts_URL e)")
    obtain c out where lp: "loop rs = (c, out)"
      by (cases "loop rs")
    from True hd len parse lp have
      "server (startServer e args rs) = Some \<lparr>auth = hd args\<rparr> \<and>
       ending (startServer e args rs) \<noteq> Panicked ''Woe is me!''"
      by (cases err; cases c)
        (auto simp: startServer_def findType_types Let_def Close_def)
    with True handler show ?thesis by auto
  next
    case False
    then have "server (startServer e args rs) = None \<and>
      stdout (startServer e args rs) = [] \<and>
      (\<exists>err. ending (startServer e args rs) = Returned (Some err))"
      using hd by (cases args) (auto simp: startServer_def findType_types Let_def)
    with False handler show ?thesis by auto
  qed
qed

theorem C9_no_panic_witness:
  "server (startServer sampleEnv [''oauth''] [Stop]) = Some \<lparr>auth = ''oauth''\<rparr> \<and>
   server (startServer sampleEnv [''digest''] [Stop]) = None \<and>
   stdout (startServer sampleEnv [''digest''] [Stop]) = []"
  using C9_no_panic [of sampleEnv "[''digest'']" "[Stop]"]
    startServer_started [of "[''oauth'']" sampleEnv "[Stop]"]
  by (simp add: sample_parse)

subsection \<open>C10: the scheme is compared exactly\<close>

text \<open>
  C10. For every GET request in mode Basic or OAuth whose \<open>Authorization\<close> header
  has exactly two space-separated tokens, if the first token is not the very string
  \<open>Basic\<close> (in mode Basic) or \<open>Bearer\<close> (in mode OAuth), letter case included, the
  response status is 401 and the request is not accepted.
\<close>

theorem C10_scheme_case_sensitive:
  assumes "Method r = ''GET''"
    and "length (Split (headerValue r) '' '') = 2"
    and "auth h = ''basic'' \<and> Split (headerValue r) '' '' ! 0 \<noteq> ''Basic'' \<or>
         auth h = ''oauth'' \<and> Split (headerValue r) '' '' ! 0 \<noteq> ''Bearer''"
  shows "ServeHTTP e h r =
           Inr [WriteHeader 401, SendMsg (NoAuthorization @ ''Wrong auth'')] \<and>
         status (effects (ServeHTTP e h r)) = 401 \<and>
         ServeHTTP e h r \<noteq> Inr (servePath e r)"
proof -
  from assms(2) have "headerValue r \<noteq> []"
    by (auto simp: Split_Nil)
  with assms show ?thesis
    by (auto simp: ServeHTTP_def getAuthPayload_cases effects_def servePath_def)
qed

theorem C10_scheme_case_sensitive_witness:
  "Method (request ''GET'' ''/x/prog.aci'' (authorization ''basic YmFyOmJheg=='')) = ''GET'' \<and>
   length (Split (headerValue
      (request ''GET'' ''/x/prog.aci'' (authorization ''basic YmFyOmJheg==''))) '' '') = 2 \<and>
   Split (headerValue
      (request ''GET'' ''/x/prog.aci'' (authorization ''basic YmFyOmJheg==''))) '' '' ! 0
     \<noteq> ''Basic'' \<and>
   status (effects (ServeHTTP sampleEnv \<lparr>auth = ''basic''\<rparr>
      (request ''GET'' ''/x/prog.aci'' (authorization ''basic YmFyOmJheg=='')))) = 401"
  using C10_scheme_case_sensitive
    [of "request ''GET'' ''/x/prog.aci'' (authorization ''basic YmFyOmJheg=='')"
        "\<lparr>auth = ''basic''\<rparr>" sampleEnv]
  by (simp add: split_basic_lowercase effects_def)

end
